theory Spec2Isabelle
  imports Main "HOL-Library.Sublist"
begin

section \<open>Python strings\<close>

text \<open>
  A Python \<open>str\<close> is a sequence of Unicode code points; it is modelled as the list of
  its code points, so that \<open>+\<close> is \<open>@\<close>, \<open>==\<close> is \<open>=\<close> and the empty string is the only
  falsy one. ASCII literals of the source are written through \<open>ascii\<close>; the Cyrillic and
  emoji literals are written as their code points.
\<close>

type_synonym pystr = "nat list"

definition ascii :: "string \<Rightarrow> pystr" where
  "ascii cs = map of_char cs"

text \<open>\<open>s.startswith(p)\<close>\<close>

definition startswith :: "pystr \<Rightarrow> pystr \<Rightarrow> bool" where
  "startswith s p = prefix p s"

text \<open>\<open>needle in hay\<close> on two strings: \<open>needle\<close> occurs as a contiguous run of \<open>hay\<close>.\<close>

fun str_in :: "pystr \<Rightarrow> pystr \<Rightarrow> bool" where
  "str_in needle [] = (needle = [])"
| "str_in needle (c # cs) = (prefix needle (c # cs) \<or> str_in needle cs)"

text \<open>\<open>' '.join(ts)\<close>\<close>

fun join :: "pystr list \<Rightarrow> pystr" where
  "join [] = []"
| "join [t] = t"
| "join (t # ts) = t @ [32] @ join ts"

text \<open>
  \<open>str.isspace\<close> on one code point: the characters that \<open>str.strip()\<close> removes
  (U+0009..U+000D, U+001C..U+0020, U+0085, U+00A0, U+1680, U+2000..U+200A, U+2028,
  U+2029, U+202F, U+205F, U+3000).
\<close>

definition isspace :: "nat \<Rightarrow> bool" where
  "isspace c = ((9 \<le> c \<and> c \<le> 13) \<or> (28 \<le> c \<and> c \<le> 32) \<or> c = 133 \<or> c = 160
     \<or> c = 5760 \<or> (8192 \<le> c \<and> c \<le> 8202) \<or> c = 8232 \<or> c = 8233 \<or> c = 8239
     \<or> c = 8287 \<or> c = 12288)"

definition strip :: "pystr \<Rightarrow> pystr" where
  "strip s = rev (dropWhile isspace (rev (dropWhile isspace s)))"

text \<open>\<open>str(n)\<close> for a non-negative and for an arbitrary integer: decimal digits.\<close>

fun str_nat :: "nat \<Rightarrow> pystr" where
  "str_nat n = (if n < 10 then [48 + n] else str_nat (n div 10) @ [48 + n mod 10])"

definition str_int :: "int \<Rightarrow> pystr" where
  "str_int i = (if i < 0 then 45 # str_nat (nat (- i)) else str_nat (nat i))"


section \<open>Exceptions and log records\<close>

text \<open>
  Every handler of the source is \<open>except Exception as e\<close> and uses only \<open>str(e)\<close>, so an
  exception is its class together with its message.
\<close>

datatype exn =
    RequestException pystr
  | HTTPError pystr
  | AttributeError pystr
  | DatabaseError pystr
  | TelegramError pystr
  | UnboundLocalError pystr

fun str_exn :: "exn \<Rightarrow> pystr" where
  "str_exn (RequestException m) = m"
| "str_exn (HTTPError m) = m"
| "str_exn (AttributeError m) = m"
| "str_exn (DatabaseError m) = m"
| "str_exn (TelegramError m) = m"
| "str_exn (UnboundLocalError m) = m"

datatype level = INFO | WARNING | ERROR

type_synonym logrec = "level \<times> pystr"


section \<open>The document tree\<close>

text \<open>
  The tree \<open>BeautifulSoup(response.text, 'html.parser')\<close> builds. A tag has a name, its
  attribute dict and its contents; an attribute value is a string, or a list of tokens
  for a multi-valued attribute such as \<open>class\<close>. The attribute dict is an association
  list read with \<open>map_of\<close>. Comments are nodes of their own because \<open>get_text\<close> leaves
  them out.
\<close>

datatype attr = AStr pystr | AList "pystr list"

datatype node =
    Tag (tag_name: pystr) (attrs: "(pystr \<times> attr) list") (contents: "node list")
  | NavigableString pystr
  | Comment pystr

text \<open>\<open>tag.get(key)\<close>\<close>

fun get :: "node \<Rightarrow> pystr \<Rightarrow> attr option" where
  "get (Tag n as cs) k = map_of as k"
| "get _ k = None"

text \<open>The descendants of a node in document order (\<open>tag.descendants\<close>).\<close>

fun descendants :: "node \<Rightarrow> node list" where
  "descendants (Tag n as cs) = concat (map (\<lambda>c. c # descendants c) cs)"
| "descendants (NavigableString s) = []"
| "descendants (Comment s) = []"

text \<open>\<open>tag.get_text()\<close>: the text nodes below the tag, concatenated.\<close>

fun get_text :: "node \<Rightarrow> pystr" where
  "get_text (Tag n as cs) = concat (map get_text cs)"
| "get_text (NavigableString s) = s"
| "get_text (Comment s) = []"

text \<open>
  How the library matches an attribute value against a \<open>class_=\<close> criterion \<open>f\<close> (a
  predicate on an optional string): a missing attribute is tried as \<open>None\<close>, a string as
  itself, a token list token by token and then as the tokens joined by one space.
\<close>

definition matches :: "(pystr option \<Rightarrow> bool) \<Rightarrow> attr option \<Rightarrow> bool" where
  "matches f v =
     (case v of
        None \<Rightarrow> f None
      | Some (AStr s) \<Rightarrow> f (Some s)
      | Some (AList ts) \<Rightarrow> list_ex (\<lambda>t. f (Some t)) ts \<or> f (Some (join ts)))"

text \<open>A node passes \<open>find_all(names, class_=f)\<close> when it is a tag with one of the names
  whose \<open>class\<close> attribute matches \<open>f\<close>; without \<open>class_\<close> only the name is tested.\<close>

fun is_tag :: "pystr list \<Rightarrow> node \<Rightarrow> bool" where
  "is_tag names (Tag n as cs) = (n \<in> set names)"
| "is_tag names _ = False"

definition is_tag_class :: "pystr list \<Rightarrow> (pystr option \<Rightarrow> bool) \<Rightarrow> node \<Rightarrow> bool" where
  "is_tag_class names f x = (is_tag names x \<and> matches f (get x (ascii ''class'')))"

definition find_all :: "(node \<Rightarrow> bool) \<Rightarrow> node \<Rightarrow> node list" where
  "find_all P x = filter P (descendants x)"

text \<open>\<open>tag.find(...)\<close>: the first result of \<open>find_all\<close>, or \<open>None\<close>.\<close>

definition find_tag :: "(node \<Rightarrow> bool) \<Rightarrow> node \<Rightarrow> node option" where
  "find_tag P x = (case find_all P x of [] \<Rightarrow> None | y # ys \<Rightarrow> Some y)"

text \<open>Truthiness of an attribute value: the empty string and the empty list are falsy.\<close>

fun truthy :: "attr \<Rightarrow> bool" where
  "truthy (AStr s) = (s \<noteq> [])"
| "truthy (AList ts) = (ts \<noteq> [])"


section \<open>Fetching the page\<close>

definition URL_TO_MONITOR :: pystr where
  "URL_TO_MONITOR = ascii ''https://www.kino-teatr.ru/mourn/y2025/m12/''"

text \<open>
  What \<open>requests.get\<close> gives: it raises (timeout, DNS, connection reset, ...) or returns a
  response. Of a response the program reads the status code and the text, which it hands
  to the parser at once: \<open>soup\<close> is the tree the parser builds from \<open>response.text\<close>.
  \<open>reason\<close> and \<open>resp_url\<close> only appear in the message of \<open>raise_for_status\<close>.
\<close>

datatype response =
  Response (status_code: int) (reason: pystr) (resp_url: pystr) (soup: node)

datatype fetch = Raises exn | Responds response

text \<open>
  \<open>response.raise_for_status()\<close> of the HTTP library: an \<open>HTTPError\<close> for a status code
  from 400 to 599, nothing for any other code.
\<close>

definition raise_for_status :: "response \<Rightarrow> exn option" where
  "raise_for_status r =
     (if 400 \<le> status_code r \<and> status_code r < 500 then
        Some (HTTPError (str_int (status_code r) @ ascii '' Client Error: '' @ reason r
                         @ ascii '' for url: '' @ resp_url r))
      else if 500 \<le> status_code r \<and> status_code r < 600 then
        Some (HTTPError (str_int (status_code r) @ ascii '' Server Error: '' @ reason r
                         @ ascii '' for url: '' @ resp_url r))
      else None)"


section \<open>Extraction\<close>

record profile =
  url :: pystr
  name :: pystr
  photo :: "pystr option"

text \<open>The origin prepended to a link that does not start with \<open>http\<close>.\<close>

definition site_origin :: pystr where
  "site_origin = ascii ''https://www.kino-teatr.ru''"

text \<open>The name given to a block without a name element (Cyrillic, ten letters).\<close>

definition unknown_name :: pystr where
  "unknown_name = [1053, 1077, 1080, 1079, 1074, 1077, 1089, 1090, 1085, 1086]"

text \<open>The two \<open>class_=\<close> criteria that are lambdas, and the one that is a list of names.\<close>

definition item_or_card :: "pystr option \<Rightarrow> bool" where
  "item_or_card x =
     (case x of None \<Rightarrow> False
      | Some s \<Rightarrow> s \<noteq> [] \<and> (str_in (ascii ''item'') s \<or> str_in (ascii ''card'') s))"

definition name_or_title :: "pystr option \<Rightarrow> bool" where
  "name_or_title x =
     (case x of None \<Rightarrow> False
      | Some s \<Rightarrow> s \<noteq> [] \<and> (str_in (ascii ''name'') s \<or> str_in (ascii ''title'') s))"

definition actor_or_person :: "pystr option \<Rightarrow> bool" where
  "actor_or_person x =
     (case x of None \<Rightarrow> False
      | Some s \<Rightarrow> s \<in> set [ascii ''actor-item'', ascii ''person-item''])"

text \<open>Block discovery: the primary selector, and the secondary one when it finds nothing.\<close>

definition primary_blocks :: "node \<Rightarrow> node list" where
  "primary_blocks doc = find_all (is_tag_class [ascii ''div''] actor_or_person) doc"

definition secondary_blocks :: "node \<Rightarrow> node list" where
  "secondary_blocks doc = find_all (is_tag_class [ascii ''div''] item_or_card) doc"

definition profile_blocks :: "node \<Rightarrow> node list" where
  "profile_blocks doc =
     (if primary_blocks doc = [] then secondary_blocks doc else primary_blocks doc)"

text \<open>
  The body of the loop over the blocks. It ends in \<open>continue\<close> (\<open>Skip\<close>), in an exception
  that the handler of the block catches (\<open>Raised\<close>), or in one more profile (\<open>Entity\<close>).
  The only operation of the body that can raise is \<open>.startswith\<close> on an attribute value
  that is a list.
\<close>

datatype block_result = Skip | Raised exn | Entity profile

definition no_startswith :: exn where
  "no_startswith = AttributeError ([39] @ ascii ''list'' @ [39] @ ascii '' object has no attribute ''
     @ [39] @ ascii ''startswith'' @ [39])"

definition absolute :: "pystr \<Rightarrow> pystr" where
  "absolute u = (if \<not> startswith u (ascii ''http'') then site_origin @ u else u)"

text \<open>
  The three reads of a block: the \<open>href\<close> of its first anchor (\<open>None\<close> without an
  anchor or without the attribute), the text of its name element, and the \<open>src\<close> of its
  first image when that is truthy.
\<close>

definition block_name :: "node \<Rightarrow> pystr" where
  "block_name block =
     (case find_tag (is_tag_class [ascii ''h3'', ascii ''h4'', ascii ''div''] name_or_title) block of
        Some name_tag \<Rightarrow> strip (get_text name_tag)
      | None \<Rightarrow> unknown_name)"

definition block_src :: "node \<Rightarrow> attr option" where
  "block_src block =
     (case find_tag (is_tag [ascii ''img'']) block of
        None \<Rightarrow> None
      | Some img_tag \<Rightarrow>
          (case get img_tag (ascii ''src'') of
             None \<Rightarrow> None
           | Some v \<Rightarrow> if truthy v then Some v else None))"

definition block_href :: "node \<Rightarrow> attr option" where
  "block_href block =
     (case find_tag (is_tag [ascii ''a'']) block of
        None \<Rightarrow> None
      | Some link_tag \<Rightarrow> get link_tag (ascii ''href''))"

definition extract_block :: "node \<Rightarrow> block_result" where
  "extract_block block =
     (case block_href block of
        None \<Rightarrow> Skip
      | Some (AList ts) \<Rightarrow> if ts = [] then Skip else Raised no_startswith
      | Some (AStr h) \<Rightarrow>
          if h = [] then Skip
          else
            (case block_src block of
               None \<Rightarrow> Entity \<lparr>url = absolute h, name = block_name block, photo = None\<rparr>
             | Some (AList ts) \<Rightarrow> Raised no_startswith
             | Some (AStr s) \<Rightarrow>
                 Entity \<lparr>url = absolute h, name = block_name block,
                         photo = Some (absolute s)\<rparr>))"

definition block_warning :: pystr where
  "block_warning = [1054, 1096, 1080, 1073, 1082, 1072, 32, 1087, 1088, 1080, 32, 1087, 1072,
     1088, 1089, 1080, 1085, 1075, 1077, 32, 1073, 1083, 1086, 1082, 1072, 32, 1087, 1088,
     1086, 1092, 1080, 1083, 1103, 58, 32]"

definition found_info :: pystr where
  "found_info = [1053, 1072, 1081, 1076, 1077, 1085, 1086, 32, 1087, 1088, 1086, 1092, 1080,
     1083, 1077, 1081, 32, 1085, 1072, 32, 1089, 1090, 1088, 1072, 1085, 1080, 1094, 1077,
     58, 32]"

definition page_error :: pystr where
  "page_error = [1054, 1096, 1080, 1073, 1082, 1072, 32, 1087, 1088, 1080, 32, 1087, 1072,
     1088, 1089, 1080, 1085, 1075, 1077, 32, 1089, 1090, 1088, 1072, 1085, 1080, 1094, 1099,
     58, 32]"

text \<open>The loop over the blocks: the warnings logged and the profiles appended, in order.\<close>

fun extract_blocks :: "node list \<Rightarrow> logrec list \<times> profile list" where
  "extract_blocks [] = ([], [])"
| "extract_blocks (block # blocks) =
     (case extract_block block of
        Skip \<Rightarrow> extract_blocks blocks
      | Raised e \<Rightarrow>
          (case extract_blocks blocks of
             (logs, profiles) \<Rightarrow> ((WARNING, block_warning @ str_exn e) # logs, profiles))
      | Entity p \<Rightarrow>
          (case extract_blocks blocks of (logs, profiles) \<Rightarrow> (logs, p # profiles)))"

text \<open>
  \<open>extract_profiles\<close>: what it logs and what it returns, from what the fetch gave. The
  outer handler turns an exception of the fetch or of \<open>raise_for_status\<close> into one \<open>ERROR\<close>
  record and the empty list.
\<close>

definition extract_profiles :: "fetch \<Rightarrow> logrec list \<times> profile list" where
  "extract_profiles f =
     (case f of
        Raises e \<Rightarrow> ([(ERROR, page_error @ str_exn e)], [])
      | Responds r \<Rightarrow>
          (case raise_for_status r of
             Some e \<Rightarrow> ([(ERROR, page_error @ str_exn e)], [])
           | None \<Rightarrow>
               (case extract_blocks (profile_blocks (soup r)) of
                  (logs, profiles) \<Rightarrow>
                    (logs @ [(INFO, found_info @ str_nat (length profiles))], profiles))))"


section \<open>The store\<close>

text \<open>
  The table \<open>tracked_profiles\<close>: its rows in insertion order, each with the columns
  that the program writes or that hold what it wrote (url, name, photo, time of creation).
  The column \<open>id\<close> and the counter that numbers it are left out: the program never
  reads them, and the number a row gets depends on more than the rows (an ignored insert
  uses up a number too). The database file is \<open>None\<close> while the table has not been
  created.
\<close>

record row =
  profile_url :: pystr
  row_name :: pystr
  photo_url :: "pystr option"
  created_at :: pystr

type_synonym database = "row list option"

text \<open>
  What the database does at one use of it: it works (and \<open>CURRENT_TIMESTAMP\<close> has the
  given value), \<open>sqlite3.connect\<close> raises, or a statement or the commit raises.
\<close>

datatype db_call = Works pystr | ConnectRaises exn | ExecuteRaises exn

definition no_such_table :: exn where
  "no_such_table = DatabaseError (ascii ''no such table: tracked_profiles'')"

definition init_info :: pystr where
  "init_info = [1041, 1072, 1079, 1072, 32, 1076, 1072, 1085, 1085, 1099, 1093, 32, 1080, 1085,
      1080, 1094, 1080, 1072, 1083, 1080, 1079, 1080, 1088, 1086, 1074, 1072, 1085,
      1072]"

definition save_error :: pystr where
  "save_error = [1054, 1096, 1080, 1073, 1082, 1072, 32, 1087, 1088, 1080, 32, 1089, 1086, 1093,
      1088, 1072, 1085, 1077, 1085, 1080, 1080, 32, 1087, 1088, 1086, 1092, 1080, 1083,
      1103, 58, 32]"

text \<open>\<open>CREATE TABLE IF NOT EXISTS\<close>; the connection is not guarded by a handler.\<close>

definition init_database :: "db_call \<Rightarrow> database \<Rightarrow> logrec list \<times> (exn + unit) \<times> database" where
  "init_database c db =
     (case c of
        ConnectRaises e \<Rightarrow> ([], Inl e, db)
      | ExecuteRaises e \<Rightarrow> ([], Inl e, db)
      | Works now \<Rightarrow>
          ([(INFO, init_info)], Inr (),
           (case db of None \<Rightarrow> Some [] | Some rows \<Rightarrow> Some rows)))"

text \<open>
  \<open>INSERT OR IGNORE\<close> under the \<open>UNIQUE\<close> constraint on \<open>profile_url\<close>: a row with the url
  already there leaves the table as it is and \<open>rowcount\<close> at 0; otherwise the row is
  appended and \<open>rowcount\<close> is 1.
\<close>

definition insert_or_ignore :: "pystr \<Rightarrow> row list \<Rightarrow> profile \<Rightarrow> nat \<times> row list" where
  "insert_or_ignore now rows p =
     (if url p \<in> set (map profile_url rows) then (0, rows)
      else (1, rows @ [\<lparr>profile_url = url p, row_name = name p,
                        photo_url = photo p, created_at = now\<rparr>]))"

text \<open>
  \<open>save_profile\<close>: the connection is opened outside the \<open>try\<close>, so its failure
  propagates; a failure of the statement or the commit is logged and gives \<open>False\<close>.
\<close>

definition save_profile ::
  "db_call \<Rightarrow> database \<Rightarrow> profile \<Rightarrow> logrec list \<times> (exn + bool) \<times> database" where
  "save_profile c db p =
     (case c of
        ConnectRaises e \<Rightarrow> ([], Inl e, db)
      | ExecuteRaises e \<Rightarrow> ([(ERROR, save_error @ str_exn e)], Inr False, db)
      | Works now \<Rightarrow>
          (case db of
             None \<Rightarrow> ([(ERROR, save_error @ str_exn no_such_table)], Inr False, db)
           | Some rows \<Rightarrow>
               (case insert_or_ignore now rows p of
                  (rowcount, rows') \<Rightarrow> ([], Inr (rowcount > 0), Some rows'))))"


section \<open>One cycle\<close>

text \<open>
  The loop of \<open>get_new_profiles\<close>. The i-th call of \<open>save_profile\<close> meets \<open>calls i\<close>. An
  exception of \<open>save_profile\<close> ends the loop and propagates.
\<close>

fun save_all ::
  "(nat \<Rightarrow> db_call) \<Rightarrow> database \<Rightarrow> profile list \<Rightarrow> logrec list \<times> (exn + profile list) \<times> database" where
  "save_all calls db [] = ([], Inr [], db)"
| "save_all calls db (p # ps) =
     (case save_profile (calls 0) db p of
        (logs, Inl e, db') \<Rightarrow> (logs, Inl e, db')
      | (logs, Inr is_new, db') \<Rightarrow>
          (case save_all (\<lambda>i. calls (Suc i)) db' ps of
             (logs', Inl e, db'') \<Rightarrow> (logs @ logs', Inl e, db'')
           | (logs', Inr new_profiles, db'') \<Rightarrow>
               (logs @ logs', Inr (if is_new then p # new_profiles else new_profiles), db'')))"

definition get_new_profiles ::
  "fetch \<Rightarrow> (nat \<Rightarrow> db_call) \<Rightarrow> database \<Rightarrow> logrec list \<times> (exn + profile list) \<times> database" where
  "get_new_profiles f calls db =
     (case extract_profiles f of
        (logs, current_profiles) \<Rightarrow>
          (case save_all calls db current_profiles of
             (logs', r, db') \<Rightarrow> (logs @ logs', r, db')))"


section \<open>Notification\<close>

text \<open>
  A call of the messaging transport (\<open>send_photo\<close> with chat, photo and caption,
  \<open>send_message\<close> with chat and text), and the transport: whether a call raises, given
  the calls made before it.
\<close>

datatype send =
    SendPhoto pystr pystr pystr
  | SendMessage pystr pystr

type_synonym bot = "send list \<Rightarrow> send \<Rightarrow> exn option"

definition message_head :: pystr where
  "message_head = [127917, 32, 1053, 1086, 1074, 1099, 1081, 32, 1087, 1088, 1086, 1092, 1080, 1083,
      1100, 32, 1072, 1082, 1090, 1077, 1088, 1072, 58, 10, 10, 128100, 32, 1048, 1084,
      1103, 58, 32]"

definition message_link :: pystr where
  "message_link = [10, 128279, 32, 1057, 1089, 1099, 1083, 1082, 1072, 58, 32]"

definition fallback_head :: pystr where
  "fallback_head = [127917, 32, 1053, 1086, 1074, 1099, 1081, 32, 1087, 1088, 1086, 1092, 1080, 1083,
      1100, 32, 40, 1086, 1096, 1080, 1073, 1082, 1072, 32, 1079, 1072, 1075, 1088,
      1091, 1079, 1082, 1080, 32, 1092, 1086, 1090, 1086, 41, 58, 10, 128100, 32]"

definition fallback_link :: pystr where
  "fallback_link = [10, 128279, 32]"

definition sent_info :: pystr where
  "sent_info = [1054, 1090, 1087, 1088, 1072, 1074, 1083, 1077, 1085, 1086, 32, 1091, 1074, 1077,
      1076, 1086, 1084, 1083, 1077, 1085, 1080, 1077, 32, 1086, 32, 1087, 1088, 1086,
      1092, 1080, 1083, 1077, 58, 32]"

definition send_error :: pystr where
  "send_error = [1054, 1096, 1080, 1073, 1082, 1072, 32, 1087, 1088, 1080, 32, 1086, 1090, 1087,
      1088, 1072, 1074, 1082, 1077, 32, 1091, 1074, 1077, 1076, 1086, 1084, 1083, 1077,
      1085, 1080, 1103, 58, 32]"

definition fallback_error :: pystr where
  "fallback_error = [1053, 1077, 32, 1091, 1076, 1072, 1083, 1086, 1089, 1100, 32, 1086, 1090, 1087,
      1088, 1072, 1074, 1080, 1090, 1100, 32, 1076, 1072, 1078, 1077, 32, 1090, 1077,
      1082, 1089, 1090, 1086, 1074, 1086, 1077, 32, 1091, 1074, 1077, 1076, 1086, 1084,
      1083, 1077, 1085, 1080, 1077, 58, 32]"

definition message :: "profile \<Rightarrow> pystr" where
  "message p = message_head @ name p @ message_link @ url p"

definition fallback_text :: "profile \<Rightarrow> pystr" where
  "fallback_text p = fallback_head @ name p @ fallback_link @ url p"

text \<open>The first delivery: with the photo when \<open>profile['photo']\<close> is truthy.\<close>

definition primary_send :: "pystr \<Rightarrow> profile \<Rightarrow> send" where
  "primary_send chat p =
     (case photo p of
        None \<Rightarrow> SendMessage chat (message p)
      | Some ph \<Rightarrow> if ph \<noteq> [] then SendPhoto chat ph (message p)
                   else SendMessage chat (message p))"

text \<open>
  The body of the loop of \<open>send_notification\<close>, from the calls made so far: the records
  logged and the calls made so far afterwards.
\<close>

definition notify_profile :: "bot \<Rightarrow> pystr \<Rightarrow> send list \<Rightarrow> profile \<Rightarrow> logrec list \<times> send list" where
  "notify_profile b chat sent p =
     (case b sent (primary_send chat p) of
        None \<Rightarrow> ([(INFO, sent_info @ name p)], sent @ [primary_send chat p])
      | Some e \<Rightarrow>
          (case b (sent @ [primary_send chat p]) (SendMessage chat (fallback_text p)) of
             None \<Rightarrow>
               ([(ERROR, send_error @ str_exn e)],
                sent @ [primary_send chat p, SendMessage chat (fallback_text p)])
           | Some e2 \<Rightarrow>
               ([(ERROR, send_error @ str_exn e), (ERROR, fallback_error @ str_exn e2)],
                sent @ [primary_send chat p, SendMessage chat (fallback_text p)])))"

fun send_notification :: "bot \<Rightarrow> pystr \<Rightarrow> send list \<Rightarrow> profile list \<Rightarrow> logrec list \<times> send list" where
  "send_notification b chat sent [] = ([], sent)"
| "send_notification b chat sent (p # ps) =
     (case notify_profile b chat sent p of
        (logs, sent') \<Rightarrow>
          (case send_notification b chat sent' ps of
             (logs', sent'') \<Rightarrow> (logs @ logs', sent'')))"


section \<open>The status command\<close>

definition db_works :: pystr where
  "db_works = [9989, 32, 1056, 1072, 1073, 1086, 1090, 1072, 1077, 1090]"

definition error_label :: pystr where
  "error_label = [10060, 32, 1054, 1096, 1080, 1073, 1082, 1072, 58, 32]"

definition page_available :: pystr where
  "page_available = [9989, 32, 1044, 1086, 1089, 1090, 1091, 1087, 1085, 1072]"

definition code_label :: pystr where
  "code_label = [10060, 32, 1050, 1086, 1076, 58, 32]"

definition status_head :: pystr where
  "status_head = [129302, 32, 1057, 1090, 1072, 1090, 1091, 1089, 32, 1073, 1086, 1090, 1072, 58,
      10]"

definition time_label :: pystr where
  "time_label = [128336, 32, 1042, 1088, 1077, 1084, 1103, 32, 1087, 1088, 1086, 1074, 1077, 1088,
      1082, 1080, 58, 32]"

definition count_label :: pystr where
  "count_label = [128202, 32, 1055, 1088, 1086, 1092, 1080, 1083, 1077, 1081, 32, 1074, 32, 1073,
      1072, 1079, 1077, 58, 32]"

definition db_label :: pystr where
  "db_label = [128452, 65039, 32, 1041, 1072, 1079, 1072, 32, 1076, 1072, 1085, 1085, 1099,
      1093, 58, 32]"

definition page_label :: pystr where
  "page_label = [127760, 32, 1062, 1077, 1083, 1077, 1074, 1072, 1103, 32, 1089, 1090, 1088, 1072,
      1085, 1080, 1094, 1072, 58, 32]"

definition next_check :: pystr where
  "next_check = [9200, 32, 1057, 1083, 1077, 1076, 1091, 1102, 1097, 1072, 1103, 32, 1087, 1088,
      1086, 1074, 1077, 1088, 1082, 1072, 32, 1095, 1077, 1088, 1077, 1079, 32, 53, 32,
      1084, 1080, 1085, 1091, 1090]"

text \<open>
  The first \<open>try\<close> of \<open>ping_command\<close>: the local \<open>count\<close> (\<open>None\<close> while it is unbound)
  and \<open>db_status\<close>. Here the connection is inside the \<open>try\<close>.
\<close>

definition ping_db :: "db_call \<Rightarrow> database \<Rightarrow> nat option \<times> pystr" where
  "ping_db c db =
     (case c of
        ConnectRaises e \<Rightarrow> (None, error_label @ str_exn e)
      | ExecuteRaises e \<Rightarrow> (None, error_label @ str_exn e)
      | Works now \<Rightarrow>
          (case db of
             None \<Rightarrow> (None, error_label @ str_exn no_such_table)
           | Some rows \<Rightarrow> (Some (length rows), db_works)))"

text \<open>The second \<open>try\<close>: \<open>page_status\<close>.\<close>

definition ping_page :: "fetch \<Rightarrow> pystr" where
  "ping_page f =
     (case f of
        Raises e \<Rightarrow> error_label @ str_exn e
      | Responds r \<Rightarrow>
          if status_code r = 200 then page_available
          else code_label @ str_int (status_code r))"

text \<open>Reading a local that no assignment has reached.\<close>

definition unbound_count :: exn where
  "unbound_count = UnboundLocalError (ascii ''cannot access local variable '' @ [39]
     @ ascii ''count'' @ [39] @ ascii '' where it is not associated with a value'')"

text \<open>
  \<open>ping_command\<close>, from the time of the check as formatted, what the database and the
  page do, and whether \<open>reply_text\<close> raises on a text: the text it replied with, or the
  exception that leaves it.
\<close>

definition ping_command ::
  "pystr \<Rightarrow> db_call \<Rightarrow> database \<Rightarrow> fetch \<Rightarrow> (pystr \<Rightarrow> exn option) \<Rightarrow> exn + pystr" where
  "ping_command check_time c db f reply_text =
     (case ping_db c db of
        (count, db_status) \<Rightarrow>
          (case count of
             None \<Rightarrow> Inl unbound_count
           | Some n \<Rightarrow>
               (let status_message =
                      status_head @ time_label @ check_time @ [10]
                      @ count_label @ str_nat n @ [10]
                      @ db_label @ db_status @ [10]
                      @ page_label @ ping_page f @ [10]
                      @ next_check
                in case reply_text status_message of
                     Some e \<Rightarrow> Inl e
                   | None \<Rightarrow> Inr status_message)))"


section \<open>Notions used to state the properties\<close>

text \<open>
  A use of the database that works, the row the table keeps for a url, and the words of
  the fallback text that say that the photo could not be loaded (in Cyrillic: an opening
  bracket, three words, a closing bracket).
\<close>

definition works :: "db_call \<Rightarrow> bool" where
  "works c = (case c of Works now \<Rightarrow> True | ConnectRaises e \<Rightarrow> False | ExecuteRaises e \<Rightarrow> False)"


definition photo_error_note :: pystr where
  "photo_error_note = [40, 1086, 1096, 1080, 1073, 1082, 1072, 32, 1079, 1072, 1075, 1088, 1091,
     1079, 1082, 1080, 32, 1092, 1086, 1090, 1086, 41]"

text \<open>
  The two selectors in the words of the specification. The primary one takes the \<open>div\<close>
  elements with one of the two known class names; the secondary one takes the \<open>div\<close>
  elements whose class attribute has a token in which \<open>item\<close> or \<open>card\<close> occurs.
\<close>

definition has_profile_class :: "node \<Rightarrow> bool" where
  "has_profile_class x =
     (case x of
        Tag n as cs \<Rightarrow>
          n = ascii ''div'' \<and>
          (case map_of as (ascii ''class'') of
             None \<Rightarrow> False
           | Some (AStr s) \<Rightarrow> s = ascii ''actor-item'' \<or> s = ascii ''person-item''
           | Some (AList ts) \<Rightarrow>
               list_ex (\<lambda>t. t = ascii ''actor-item'' \<or> t = ascii ''person-item'') ts)
      | NavigableString s \<Rightarrow> False
      | Comment s \<Rightarrow> False)"

definition has_item_or_card_class :: "node \<Rightarrow> bool" where
  "has_item_or_card_class x =
     (case x of
        Tag n as cs \<Rightarrow>
          n = ascii ''div'' \<and>
          (case map_of as (ascii ''class'') of
             None \<Rightarrow> False
           | Some (AStr s) \<Rightarrow> str_in (ascii ''item'') s \<or> str_in (ascii ''card'') s
           | Some (AList ts) \<Rightarrow>
               list_ex (\<lambda>t. str_in (ascii ''item'') t \<or> str_in (ascii ''card'') t) ts)
      | NavigableString s \<Rightarrow> False
      | Comment s \<Rightarrow> False)"


text \<open>
  A relative link, in the words of the specification: one that is not an absolute URI.
  An absolute URI starts with a scheme (a letter, then letters, digits, \<open>+\<close>, \<open>-\<close> or
  \<open>.\<close>) and a colon.
\<close>

definition is_alpha :: "nat \<Rightarrow> bool" where
  "is_alpha c = ((65 \<le> c \<and> c \<le> 90) \<or> (97 \<le> c \<and> c \<le> 122))"

definition scheme_char :: "nat \<Rightarrow> bool" where
  "scheme_char c = (is_alpha c \<or> (48 \<le> c \<and> c \<le> 57) \<or> c = 43 \<or> c = 45 \<or> c = 46)"

fun has_scheme :: "pystr \<Rightarrow> bool" where
  "has_scheme [] = False"
| "has_scheme (c # cs) =
     (is_alpha c \<and> (case dropWhile scheme_char cs of [] \<Rightarrow> False | d # ds \<Rightarrow> d = 58))"

definition is_relative :: "pystr \<Rightarrow> bool" where
  "is_relative s = (\<not> has_scheme s)"


section \<open>Example inputs\<close>

text \<open>
  Two profile cards of the primary kind with relative links, a card whose link is the
  relative path \<open>httpdocs/a.html\<close>, a card without an anchor, and a card that only the
  secondary selector finds.
\<close>

definition ann_card :: node where
  "ann_card =
     Tag (ascii ''div'') [(ascii ''class'', AList [ascii ''actor-item''])]
       [Tag (ascii ''a'') [(ascii ''href'', AStr (ascii ''/p/1''))] [],
        Tag (ascii ''h3'') [(ascii ''class'', AList [ascii ''name''])]
          [NavigableString (ascii '' Ann '')],
        Tag (ascii ''img'') [(ascii ''src'', AStr (ascii ''/img/x.jpg''))] []]"

definition bob_card :: node where
  "bob_card =
     Tag (ascii ''div'') [(ascii ''class'', AList [ascii ''person-item''])]
       [Tag (ascii ''a'') [(ascii ''href'', AStr (ascii ''https://www.kino-teatr.ru/p/2''))] [],
        Tag (ascii ''h4'') [(ascii ''class'', AList [ascii ''title''])]
          [NavigableString (ascii ''Bob'')]]"

definition httpdocs_card :: node where
  "httpdocs_card =
     Tag (ascii ''div'') [(ascii ''class'', AList [ascii ''actor-item''])]
       [Tag (ascii ''a'') [(ascii ''href'', AStr (ascii ''httpdocs/a.html''))] []]"

definition no_anchor_card :: node where
  "no_anchor_card =
     Tag (ascii ''div'') [(ascii ''class'', AList [ascii ''actor-item''])]
       [Tag (ascii ''span'') [] [NavigableString (ascii ''Cyd'')]]"

definition loose_card :: node where
  "loose_card =
     Tag (ascii ''div'') [(ascii ''class'', AList [ascii ''profile-card'', ascii ''wide''])]
       [Tag (ascii ''a'') [(ascii ''href'', AStr (ascii ''/p/3''))] []]"

text \<open>
  A card of the secondary kind without an anchor, a card whose links are absolute, and
  the error of a database file that cannot be opened.
\<close>

definition bare_card :: node where
  "bare_card = Tag (ascii ''div'') [(ascii ''class'', AList [ascii ''card''])] []"

definition eve_card :: node where
  "eve_card =
     Tag (ascii ''div'') [(ascii ''class'', AList [ascii ''actor-item''])]
       [Tag (ascii ''a'') [(ascii ''href'', AStr (ascii ''http://other.example/eve''))] [],
        Tag (ascii ''img'') [(ascii ''src'', AStr (ascii ''https://cdn.example/eve.png''))] []]"

definition eve :: profile where
  "eve = \<lparr>url = ascii ''http://other.example/eve'', name = unknown_name,
           photo = Some (ascii ''https://cdn.example/eve.png'')\<rparr>"


definition ann :: profile where
  "ann = \<lparr>url = ascii ''https://www.kino-teatr.ru/p/1'', name = ascii ''Ann'',
           photo = Some (ascii ''https://www.kino-teatr.ru/img/x.jpg'')\<rparr>"

definition bob :: profile where
  "bob = \<lparr>url = ascii ''https://www.kino-teatr.ru/p/2'', name = ascii ''Bob'', photo = None\<rparr>"

definition dan :: profile where
  "dan = \<lparr>url = ascii ''https://www.kino-teatr.ru/p/3'', name = unknown_name, photo = None\<rparr>"

definition page_of :: "node list \<Rightarrow> node" where
  "page_of cards = Tag (ascii ''[document]'') [] [Tag (ascii ''body'') [] cards]"

definition response_of :: "int \<Rightarrow> node list \<Rightarrow> response" where
  "response_of code cards = Response code (ascii ''reason'') URL_TO_MONITOR (page_of cards)"

definition example_time :: pystr where
  "example_time = ascii ''2025-12-01 10:00:00''"

definition always_works :: "nat \<Rightarrow> db_call" where
  "always_works i = Works example_time"

definition ann_row :: row where
  "ann_row = \<lparr>profile_url = ascii ''https://www.kino-teatr.ru/p/1'',
               row_name = ascii ''Ann'',
               photo_url = Some (ascii ''https://www.kino-teatr.ru/img/x.jpg''),
               created_at = example_time\<rparr>"

text \<open>A transport on which every photo fails, and one on which only the first call fails.\<close>

definition no_photo_bot :: bot where
  "no_photo_bot sent s =
     (case s of SendPhoto c ph cap \<Rightarrow> Some (TelegramError (ascii ''wrong file''))
      | SendMessage c t \<Rightarrow> None)"

definition first_fails_bot :: bot where
  "first_fails_bot sent s = (if sent = [] then Some (TelegramError (ascii ''timed out'')) else None)"

definition example_chat :: pystr where
  "example_chat = ascii ''42''"


section \<open>Facts about strings\<close>

lemma str_in_iff: "str_in n h \<longleftrightarrow> (\<exists>a b. h = a @ n @ b)"
proof (induction h)
  case Nil
  then show ?case by auto
next
  case (Cons c cs)
  show ?case
  proof
    assume "str_in n (c # cs)"
    then consider "prefix n (c # cs)" | "str_in n cs" by auto
    then show "\<exists>a b. c # cs = a @ n @ b"
    proof cases
      case 1
      then obtain b where "c # cs = n @ b" by (auto simp: prefix_def)
      then have "c # cs = [] @ n @ b" by simp
      then show ?thesis by blast
    next
      case 2
      with Cons.IH obtain a b where "cs = a @ n @ b" by blast
      then have "c # cs = (c # a) @ n @ b" by simp
      then show ?thesis by blast
    qed
  next
    assume "\<exists>a b. c # cs = a @ n @ b"
    then obtain a b where ab: "c # cs = a @ n @ b" by blast
    show "str_in n (c # cs)"
    proof (cases a)
      case Nil
      with ab have "prefix n (c # cs)" by (simp add: prefix_def)
      then show ?thesis by simp
    next
      case (Cons x a')
      with ab have "cs = a' @ n @ b" by simp
      with Cons.IH have "str_in n cs" by blast
      then show ?thesis by simp
    qed
  qed
qed

lemma str_in_mid: "str_in n (a @ n @ b)"
  by (auto simp: str_in_iff)

lemma str_in_append_sep:
  assumes "c \<notin> set n" and "n \<noteq> []"
  shows "str_in n (a @ c # b) \<longleftrightarrow> str_in n a \<or> str_in n b"
proof
  assume "str_in n (a @ c # b)"
  then obtain x y where e: "a @ c # b = x @ n @ y"
    by (auto simp: str_in_iff)
  then consider us where "a = x @ us" "us @ c # b = n @ y"
    | us where "a @ us = x" "c # b = us @ n @ y"
    by (auto simp: append_eq_append_conv2)
  then show "str_in n a \<or> str_in n b"
  proof cases
    case 1
    from 1(2) consider vs where "us = n @ vs" | vs where "us @ vs = n" "c # b = vs @ y"
      by (auto simp: append_eq_append_conv2)
    then show ?thesis
    proof cases
      case 1
      with \<open>a = x @ us\<close> have "a = x @ n @ vs" by simp
      then show ?thesis by (auto simp: str_in_iff)
    next
      case 2
      show ?thesis
      proof (cases vs)
        case Nil
        with 2 \<open>a = x @ us\<close> have "a = x @ n @ []" by simp
        then have "str_in n a" unfolding str_in_iff by blast
        then show ?thesis by simp
      next
        case (Cons v vs')
        with 2 have "c \<in> set n" by auto
        with assms show ?thesis by simp
      qed
    qed
  next
    case 2
    show ?thesis
    proof (cases us)
      case Nil
      with 2 have "c # b = n @ y" by simp
      with assms(2) have "c \<in> set n" by (cases n) auto
      with assms show ?thesis by simp
    next
      case (Cons u us')
      with 2 have "b = us' @ n @ y" by simp
      then have "str_in n b" unfolding str_in_iff by blast
      then show ?thesis by simp
    qed
  qed
next
  assume "str_in n a \<or> str_in n b"
  then show "str_in n (a @ c # b)"
  proof
    assume "str_in n a"
    then obtain x y where "a = x @ n @ y" by (auto simp: str_in_iff)
    then have "a @ c # b = x @ n @ (y @ c # b)" by simp
    then show ?thesis unfolding str_in_iff by blast
  next
    assume "str_in n b"
    then obtain x y where "b = x @ n @ y" by (auto simp: str_in_iff)
    then have "a @ c # b = (a @ c # x) @ n @ y" by simp
    then show ?thesis unfolding str_in_iff by blast
  qed
qed

lemma str_in_join:
  "32 \<notin> set n \<Longrightarrow> n \<noteq> [] \<Longrightarrow> str_in n (join ts) \<longleftrightarrow> list_ex (str_in n) ts"
proof (induction ts rule: join.induct)
  case 1
  then show ?case by simp
next
  case (2 t)
  then show ?case by simp
next
  case (3 t v va)
  have "str_in n (join (t # v # va)) \<longleftrightarrow> str_in n t \<or> str_in n (join (v # va))"
    using str_in_append_sep[OF "3.prems", of t "join (v # va)"] by simp
  with 3 show ?case by simp
qed

lemma join_without_space:
  "32 \<notin> set (join ts) \<Longrightarrow> ts = [] \<or> ts = [join ts]"
  by (induction ts rule: join.induct) auto


section \<open>Facts about the extraction\<close>

lemma startswith_absolute: "startswith (absolute u) (ascii ''http'')"
proof -
  have e: "site_origin = ascii ''http'' @ ascii ''s://www.kino-teatr.ru''"
    by (simp add: site_origin_def ascii_def)
  have "prefix (ascii ''http'') (site_origin @ u)"
    unfolding e by simp
  then show ?thesis
    by (simp add: absolute_def startswith_def)
qed

lemma extract_block_Entity:
  assumes "extract_block b = Entity p"
  shows "\<exists>h. block_href b = Some (AStr h) \<and> h \<noteq> [] \<and> url p = absolute h
           \<and> name p = block_name b
           \<and> (case block_src b of
                 None \<Rightarrow> photo p = None
               | Some (AStr s) \<Rightarrow> photo p = Some (absolute s)
               | Some (AList ts) \<Rightarrow> False)"
  using assms
  by (auto simp: extract_block_def split: option.splits attr.splits if_splits)

lemma snd_extract_blocks:
  "snd (extract_blocks bs) =
     concat (map (\<lambda>b. case extract_block b of Entity p \<Rightarrow> [p] | Skip \<Rightarrow> [] | Raised e \<Rightarrow> []) bs)"
  by (induction bs) (auto split: block_result.splits prod.splits)

lemma in_extract_blocks:
  "p \<in> set (snd (extract_blocks bs)) \<Longrightarrow> \<exists>b \<in> set bs. extract_block b = Entity p"
  by (auto simp: snd_extract_blocks split: block_result.splits)

lemma snd_extract_profiles:
  "snd (extract_profiles f) =
     (case f of
        Raises e \<Rightarrow> []
      | Responds r \<Rightarrow>
          if raise_for_status r = None then snd (extract_blocks (profile_blocks (soup r)))
          else [])"
  by (auto simp: extract_profiles_def split: fetch.splits option.splits prod.splits)

lemma extract_blocks_all_entities:
  "\<forall>b \<in> set bs. \<exists>p. extract_block b = Entity p \<Longrightarrow>
     map Entity (snd (extract_blocks bs)) = map extract_block bs"
  by (induction bs) (auto split: prod.splits)

lemma extract_profiles_parsed:
  "raise_for_status r = None \<Longrightarrow> profile_blocks (soup r) = bs \<Longrightarrow>
   extract_blocks bs = (logs, ps) \<Longrightarrow>
     extract_profiles (Responds r) = (logs @ [(INFO, found_info @ str_nat (length ps))], ps)"
  by (simp add: extract_profiles_def)

lemma matches_item_or_card:
  "matches item_or_card (Some (AList ts))
     \<longleftrightarrow> list_ex (\<lambda>t. str_in (ascii ''item'') t \<or> str_in (ascii ''card'') t) ts"
proof -
  have ne: "ascii ''item'' \<noteq> []" "ascii ''card'' \<noteq> []"
    and sp: "32 \<notin> set (ascii ''item'')" "32 \<notin> set (ascii ''card'')"
    by (simp_all add: ascii_def)
  have one: "item_or_card (Some s) \<longleftrightarrow> str_in (ascii ''item'') s \<or> str_in (ascii ''card'') s" for s
    using ne by (cases s) (auto simp: item_or_card_def)
  have "str_in (ascii ''item'') (join ts) \<longleftrightarrow> list_ex (str_in (ascii ''item'')) ts"
    by (rule str_in_join[OF sp(1) ne(1)])
  moreover have "str_in (ascii ''card'') (join ts) \<longleftrightarrow> list_ex (str_in (ascii ''card'')) ts"
    by (rule str_in_join[OF sp(2) ne(2)])
  ultimately show ?thesis
    by (auto simp: matches_def one list_ex_iff)
qed

lemma matches_actor_or_person:
  "matches actor_or_person (Some (AList ts))
     \<longleftrightarrow> list_ex (\<lambda>t. t = ascii ''actor-item'' \<or> t = ascii ''person-item'') ts"
proof -
  have sp: "32 \<notin> set (ascii ''actor-item'')" "32 \<notin> set (ascii ''person-item'')"
    and ne: "ascii ''actor-item'' \<noteq> []" "ascii ''person-item'' \<noteq> []"
    by (simp_all add: ascii_def)
  have j: "t \<in> set ts" if "join ts = t" "32 \<notin> set t" "t \<noteq> []" for t
  proof -
    from that have "ts = [] \<or> ts = [join ts]" by (intro join_without_space) simp
    with that show ?thesis by (cases ts) auto
  qed
  show ?thesis
    using j[OF _ sp(1) ne(1)] j[OF _ sp(2) ne(2)]
    by (auto simp: matches_def actor_or_person_def list_ex_iff)
qed

lemma is_tag_class_item_or_card:
  "is_tag_class [ascii ''div''] item_or_card x = has_item_or_card_class x"
proof (cases x)
  case (Tag n as cs)
  show ?thesis
  proof (cases "map_of as (ascii ''class'')")
    case None
    with Tag show ?thesis
      by (simp add: is_tag_class_def has_item_or_card_class_def matches_def item_or_card_def)
  next
    case (Some v)
    show ?thesis
    proof (cases v)
      case (AStr s)
      have "ascii ''item'' \<noteq> []" "ascii ''card'' \<noteq> []" by (simp_all add: ascii_def)
      then have "item_or_card (Some s) \<longleftrightarrow> str_in (ascii ''item'') s \<or> str_in (ascii ''card'') s"
        by (cases s) (auto simp: item_or_card_def)
      with Tag Some AStr show ?thesis
        by (simp add: is_tag_class_def has_item_or_card_class_def matches_def)
    next
      case (AList ts)
      with Tag Some matches_item_or_card[of ts] show ?thesis
        by (simp add: is_tag_class_def has_item_or_card_class_def)
    qed
  qed
qed (simp_all add: is_tag_class_def has_item_or_card_class_def)

lemma is_tag_class_actor_or_person:
  "is_tag_class [ascii ''div''] actor_or_person x = has_profile_class x"
proof (cases x)
  case (Tag n as cs)
  show ?thesis
  proof (cases "map_of as (ascii ''class'')")
    case None
    with Tag show ?thesis
      by (simp add: is_tag_class_def has_profile_class_def matches_def actor_or_person_def)
  next
    case (Some v)
    show ?thesis
    proof (cases v)
      case (AStr s)
      with Tag Some show ?thesis
        by (auto simp: is_tag_class_def has_profile_class_def matches_def actor_or_person_def)
    next
      case (AList ts)
      with Tag Some matches_actor_or_person[of ts] show ?thesis
        by (simp add: is_tag_class_def has_profile_class_def)
    qed
  qed
qed (simp_all add: is_tag_class_def has_profile_class_def)

lemma secondary_blocks_eq:
  "secondary_blocks doc = filter has_item_or_card_class (descendants doc)"
  by (simp add: secondary_blocks_def find_all_def is_tag_class_item_or_card cong: filter_cong)

lemma primary_blocks_eq:
  "primary_blocks doc = filter has_profile_class (descendants doc)"
  by (simp add: primary_blocks_def find_all_def is_tag_class_actor_or_person cong: filter_cong)

lemma extract_ann_card: "extract_block ann_card = Entity ann"
  by code_simp

lemma extract_bob_card: "extract_block bob_card = Entity bob"
  by code_simp

lemma extract_loose_card: "extract_block loose_card = Entity dan"
  by code_simp

lemma extract_eve_card: "extract_block eve_card = Entity eve"
  by code_simp

lemma raise_for_status_response_of_200: "raise_for_status (response_of 200 cards) = None"
  by (simp add: raise_for_status_def response_of_def)

lemma profile_blocks_two_cards:
  "profile_blocks (soup (response_of 200 [ann_card, bob_card])) = [ann_card, bob_card]"
  by code_simp

lemma extract_two_cards:
  "snd (extract_profiles (Responds (response_of 200 [ann_card, bob_card]))) = [ann, bob]"
proof -
  have "extract_blocks [ann_card, bob_card] = ([], [ann, bob])"
    by (simp add: extract_ann_card extract_bob_card)
  from extract_profiles_parsed[OF raise_for_status_response_of_200 profile_blocks_two_cards this]
  show ?thesis by simp
qed


text \<open>
  \<^bold>\<open>C9.\<close> Every profile that the extraction returns has a url that starts with \<open>http\<close>,
  and a photo that is absent or starts with \<open>http\<close>. Only the prefix decides: the
  protocol-relative \<open>//host/x\<close> gets the origin prepended as it is.
\<close>

theorem extracted_links_start_with_http:
  "p \<in> set (snd (extract_profiles f)) \<Longrightarrow>
     startswith (url p) (ascii ''http'')
     \<and> (case photo p of None \<Rightarrow> True | Some s \<Rightarrow> startswith s (ascii ''http''))
     \<and> absolute (ascii ''//host/x'') = site_origin @ ascii ''//host/x''"
proof -
  assume "p \<in> set (snd (extract_profiles f))"
  then obtain b where "extract_block b = Entity p"
    by (auto simp: snd_extract_profiles split: fetch.splits if_splits dest: in_extract_blocks)
  from extract_block_Entity[OF this] obtain h where
    h: "url p = absolute h" and
    s: "case block_src b of None \<Rightarrow> photo p = None
         | Some (AStr s) \<Rightarrow> photo p = Some (absolute s) | Some (AList ts) \<Rightarrow> False"
    by blast
  have 1: "startswith (url p) (ascii ''http'')"
    by (simp add: h startswith_absolute)
  have 2: "case photo p of None \<Rightarrow> True | Some s \<Rightarrow> startswith s (ascii ''http'')"
    using s by (auto split: option.splits attr.splits simp: startswith_absolute)
  have 3: "absolute (ascii ''//host/x'') = site_origin @ ascii ''//host/x''"
    by (simp add: absolute_def startswith_def ascii_def)
  from 1 2 3 show ?thesis by blast
qed

theorem extracted_links_start_with_http_witness:
  "ann \<in> set (snd (extract_profiles (Responds (response_of 200 [ann_card, bob_card]))))
   \<and> startswith (url ann) (ascii ''http'')
   \<and> (case photo ann of None \<Rightarrow> True | Some s \<Rightarrow> startswith s (ascii ''http''))"
proof -
  have h: "ann \<in> set (snd (extract_profiles (Responds (response_of 200 [ann_card, bob_card]))))"
    by (simp add: extract_two_cards)
  from extracted_links_start_with_http[OF h] h show ?thesis
    by blast
qed


text \<open>
  \<^bold>\<open>C6\<close>, as the specification has it, fails: the card whose anchor has the relative path
  \<open>httpdocs/a.html\<close> as its \<open>href\<close> keeps that path as its url, because the path starts
  with \<open>http\<close>.
\<close>

theorem relative_httpdocs_link_kept:
  "is_relative (ascii ''httpdocs/a.html'')
   \<and> block_href httpdocs_card = Some (AStr (ascii ''httpdocs/a.html''))
   \<and> extract_block httpdocs_card
       = Entity \<lparr>url = ascii ''httpdocs/a.html'', name = unknown_name, photo = None\<rparr>
   \<and> ascii ''httpdocs/a.html'' \<noteq> site_origin @ ascii ''httpdocs/a.html''"
  by code_simp

text \<open>
  \<^bold>\<open>C6\<close>, amended. For every block that gives a profile: an \<open>href\<close> of its anchor that
  does not start with \<open>http\<close> becomes the url with the site origin in front of it, and
  so does a \<open>src\<close> of its image for the photo; in particular the \<open>src\<close> \<open>/img/x.jpg\<close>
  gives the origin followed by \<open>/img/x.jpg\<close>. An \<open>href\<close> or a \<open>src\<close> that starts with
  \<open>http\<close> is kept as it is.
\<close>

theorem links_without_http_get_origin:
  assumes "extract_block b = Entity p"
  shows "(\<forall>h. block_href b = Some (AStr h) \<and> \<not> startswith h (ascii ''http'')
            \<longrightarrow> url p = site_origin @ h)
       \<and> (\<forall>s. block_src b = Some (AStr s) \<and> \<not> startswith s (ascii ''http'')
            \<longrightarrow> photo p = Some (site_origin @ s))
       \<and> (block_src b = Some (AStr (ascii ''/img/x.jpg''))
            \<longrightarrow> photo p = Some (site_origin @ ascii ''/img/x.jpg''))
       \<and> (\<forall>h. block_href b = Some (AStr h) \<and> startswith h (ascii ''http'') \<longrightarrow> url p = h)
       \<and> (\<forall>s. block_src b = Some (AStr s) \<and> startswith s (ascii ''http'')
            \<longrightarrow> photo p = Some s)"
proof -
  from extract_block_Entity[OF assms] obtain h where
    h: "block_href b = Some (AStr h)" "url p = absolute h" and
    s: "case block_src b of None \<Rightarrow> photo p = None
         | Some (AStr s) \<Rightarrow> photo p = Some (absolute s) | Some (AList ts) \<Rightarrow> False"
    by blast
  have x: "absolute (ascii ''/img/x.jpg'') = site_origin @ ascii ''/img/x.jpg''"
    by (simp add: absolute_def startswith_def ascii_def)
  show ?thesis
  proof (intro conjI allI impI)
    fix h' assume "block_href b = Some (AStr h') \<and> \<not> startswith h' (ascii ''http'')"
    with h show "url p = site_origin @ h'" by (simp add: absolute_def)
  next
    fix s' assume "block_src b = Some (AStr s') \<and> \<not> startswith s' (ascii ''http'')"
    with s show "photo p = Some (site_origin @ s')" by (simp add: absolute_def)
  next
    assume "block_src b = Some (AStr (ascii ''/img/x.jpg''))"
    with s show "photo p = Some (site_origin @ ascii ''/img/x.jpg'')" by (simp add: x)
  next
    fix h' assume "block_href b = Some (AStr h') \<and> startswith h' (ascii ''http'')"
    with h show "url p = h'" by (simp add: absolute_def)
  next
    fix s' assume "block_src b = Some (AStr s') \<and> startswith s' (ascii ''http'')"
    with s show "photo p = Some s'" by (simp add: absolute_def)
  qed
qed

theorem links_without_http_get_origin_witness:
  "extract_block ann_card = Entity ann
   \<and> block_href ann_card = Some (AStr (ascii ''/p/1''))
   \<and> \<not> startswith (ascii ''/p/1'') (ascii ''http'')
   \<and> url ann = site_origin @ ascii ''/p/1''
   \<and> block_src ann_card = Some (AStr (ascii ''/img/x.jpg''))
   \<and> \<not> startswith (ascii ''/img/x.jpg'') (ascii ''http'')
   \<and> photo ann = Some (site_origin @ ascii ''/img/x.jpg'')
   \<and> extract_block eve_card = Entity eve
   \<and> block_href eve_card = Some (AStr (ascii ''http://other.example/eve''))
   \<and> startswith (ascii ''http://other.example/eve'') (ascii ''http'')
   \<and> url eve = ascii ''http://other.example/eve''
   \<and> block_src eve_card = Some (AStr (ascii ''https://cdn.example/eve.png''))
   \<and> startswith (ascii ''https://cdn.example/eve.png'') (ascii ''http'')
   \<and> photo eve = Some (ascii ''https://cdn.example/eve.png'')"
proof -
  have e: "extract_block ann_card = Entity ann"
    by (rule extract_ann_card)
  have h: "block_href ann_card = Some (AStr (ascii ''/p/1''))
           \<and> \<not> startswith (ascii ''/p/1'') (ascii ''http'')"
    by code_simp
  have s: "block_src ann_card = Some (AStr (ascii ''/img/x.jpg''))
           \<and> \<not> startswith (ascii ''/img/x.jpg'') (ascii ''http'')"
    by code_simp
  have e': "extract_block eve_card = Entity eve"
    by (rule extract_eve_card)
  have h': "block_href eve_card = Some (AStr (ascii ''http://other.example/eve''))
           \<and> startswith (ascii ''http://other.example/eve'') (ascii ''http'')"
    by code_simp
  have s': "block_src eve_card = Some (AStr (ascii ''https://cdn.example/eve.png''))
           \<and> startswith (ascii ''https://cdn.example/eve.png'') (ascii ''http'')"
    by code_simp
  have 1: "url ann = site_origin @ ascii ''/p/1''
      \<and> photo ann = Some (site_origin @ ascii ''/img/x.jpg'')"
    using links_without_http_get_origin[OF e] h s by blast
  have 2: "url eve = ascii ''http://other.example/eve''
      \<and> photo eve = Some (ascii ''https://cdn.example/eve.png'')"
    using links_without_http_get_origin[OF e'] h' s' by blast
  from e h s e' h' s' 1 2 show ?thesis
    by blast
qed

text \<open>
  \<^bold>\<open>C5\<close>, as the specification has it, fails: on the page whose only block is a card of
  the secondary kind without an anchor, no block matches the primary selector, one
  matches the secondary one, and the extraction returns the empty list.
\<close>

theorem bare_card_gives_nothing:
  "primary_blocks (soup (response_of 200 [bare_card])) = []
   \<and> secondary_blocks (soup (response_of 200 [bare_card])) = [bare_card]
   \<and> snd (extract_profiles (Responds (response_of 200 [bare_card]))) = []"
  by code_simp

text \<open>
  \<^bold>\<open>C5\<close>, amended. When no block matches the primary selector (a \<open>div\<close> with one of the
  two known class names) and at least one matches the secondary one (a \<open>div\<close> whose class
  has a token in which \<open>item\<close> or \<open>card\<close> occurs), the extraction returns what the blocks
  of the secondary selector give; that list is not empty exactly when one of these blocks
  gives a profile.
\<close>

theorem secondary_blocks_used:
  assumes "raise_for_status r = None"
    and "primary_blocks (soup r) = []"
    and "secondary_blocks (soup r) \<noteq> []"
  shows "snd (extract_profiles (Responds r)) = snd (extract_blocks (secondary_blocks (soup r)))
       \<and> (snd (extract_profiles (Responds r)) \<noteq> []
            \<longleftrightarrow> (\<exists>b \<in> set (secondary_blocks (soup r)). \<exists>p. extract_block b = Entity p))
       \<and> primary_blocks (soup r) = filter has_profile_class (descendants (soup r))
       \<and> secondary_blocks (soup r) = filter has_item_or_card_class (descendants (soup r))"
proof -
  have eq: "snd (extract_profiles (Responds r)) = snd (extract_blocks (secondary_blocks (soup r)))"
    using assms by (simp add: snd_extract_profiles profile_blocks_def)
  have ne: "snd (extract_blocks bs) \<noteq> [] \<longleftrightarrow> (\<exists>b \<in> set bs. \<exists>p. extract_block b = Entity p)" for bs
    by (induction bs) (auto split: block_result.splits prod.splits)
  from eq ne[of "secondary_blocks (soup r)"] primary_blocks_eq[of "soup r"]
    secondary_blocks_eq[of "soup r"]
  show ?thesis by simp
qed

theorem secondary_blocks_used_witness:
  "raise_for_status (response_of 200 [loose_card]) = None
   \<and> primary_blocks (soup (response_of 200 [loose_card])) = []
   \<and> secondary_blocks (soup (response_of 200 [loose_card])) = [loose_card]
   \<and> extract_block loose_card = Entity dan
   \<and> snd (extract_profiles (Responds (response_of 200 [loose_card])))
       = snd (extract_blocks (secondary_blocks (soup (response_of 200 [loose_card]))))
   \<and> snd (extract_profiles (Responds (response_of 200 [loose_card]))) \<noteq> []
   \<and> filter has_item_or_card_class (descendants (soup (response_of 200 [loose_card])))
       = [loose_card]"
proof -
  have a: "raise_for_status (response_of 200 [loose_card]) = None"
    by (rule raise_for_status_response_of_200)
  have b: "primary_blocks (soup (response_of 200 [loose_card])) = []"
    by code_simp
  have c: "secondary_blocks (soup (response_of 200 [loose_card])) = [loose_card]"
    by code_simp
  have c': "secondary_blocks (soup (response_of 200 [loose_card])) \<noteq> []"
    by (simp add: c)
  have d: "\<exists>b \<in> set (secondary_blocks (soup (response_of 200 [loose_card]))).
             \<exists>p. extract_block b = Entity p"
    by (simp add: c extract_loose_card)
  note t = secondary_blocks_used[OF a b c']
  have 1: "snd (extract_profiles (Responds (response_of 200 [loose_card])))
       = snd (extract_blocks (secondary_blocks (soup (response_of 200 [loose_card]))))"
    using t by blast
  have 2: "snd (extract_profiles (Responds (response_of 200 [loose_card]))) \<noteq> []"
    using t d by blast
  have "secondary_blocks (soup (response_of 200 [loose_card]))
       = filter has_item_or_card_class (descendants (soup (response_of 200 [loose_card])))"
    using t by blast
  then have 3: "filter has_item_or_card_class (descendants (soup (response_of 200 [loose_card])))
       = [loose_card]"
    using c by simp
  from a b c extract_loose_card 1 2 3 show ?thesis
    by blast
qed

text \<open>
  \<^bold>\<open>C8.\<close> When the blocks of a document are N blocks that each give a profile and one
  more block, anywhere among them, that has no anchor, the extraction returns exactly the
  N profiles of the other blocks, in their order.
\<close>

theorem block_without_anchor_skipped:
  assumes "raise_for_status r = None"
    and "profile_blocks (soup r) = xs @ [bad] @ ys"
    and "find_tag (is_tag [ascii ''a'']) bad = None"
    and "\<forall>b \<in> set (xs @ ys). \<exists>p. extract_block b = Entity p"
  shows "length (snd (extract_profiles (Responds r))) = length xs + length ys
       \<and> map Entity (snd (extract_profiles (Responds r))) = map extract_block (xs @ ys)"
proof -
  have bad: "extract_block bad = Skip"
    using assms(3) by (simp add: extract_block_def block_href_def)
  have "snd (extract_profiles (Responds r)) = snd (extract_blocks (xs @ [bad] @ ys))"
    using assms(1,2) by (simp add: snd_extract_profiles)
  also have "\<dots> = snd (extract_blocks (xs @ ys))"
    by (simp add: snd_extract_blocks bad)
  finally have eq: "snd (extract_profiles (Responds r)) = snd (extract_blocks (xs @ ys))" .
  have m: "map Entity (snd (extract_blocks (xs @ ys))) = map extract_block (xs @ ys)"
    by (rule extract_blocks_all_entities) (rule assms(4))
  have "length (map Entity (snd (extract_blocks (xs @ ys)))) = length (map extract_block (xs @ ys))"
    by (simp only: m)
  then have "length (snd (extract_blocks (xs @ ys))) = length xs + length ys" by simp
  with eq m show ?thesis by simp
qed

theorem block_without_anchor_skipped_witness:
  "raise_for_status (response_of 200 [ann_card, no_anchor_card, bob_card]) = None
   \<and> profile_blocks (soup (response_of 200 [ann_card, no_anchor_card, bob_card]))
       = [ann_card] @ [no_anchor_card] @ [bob_card]
   \<and> find_tag (is_tag [ascii ''a'']) no_anchor_card = None
   \<and> extract_block ann_card = Entity ann
   \<and> extract_block bob_card = Entity bob
   \<and> length (snd (extract_profiles
         (Responds (response_of 200 [ann_card, no_anchor_card, bob_card])))) = 2"
proof -
  have a: "raise_for_status (response_of 200 [ann_card, no_anchor_card, bob_card]) = None"
    by (rule raise_for_status_response_of_200)
  have b: "profile_blocks (soup (response_of 200 [ann_card, no_anchor_card, bob_card]))
       = [ann_card] @ [no_anchor_card] @ [bob_card]"
    by code_simp
  have c: "find_tag (is_tag [ascii ''a'']) no_anchor_card = None"
    by code_simp
  have d: "\<forall>b \<in> set ([ann_card] @ [bob_card]). \<exists>p. extract_block b = Entity p"
    by (simp add: extract_ann_card extract_bob_card)
  have "length (snd (extract_profiles
         (Responds (response_of 200 [ann_card, no_anchor_card, bob_card])))) = 2"
    using block_without_anchor_skipped[OF a b c d] by simp
  with a b c extract_ann_card extract_bob_card show ?thesis
    by blast
qed


section \<open>Facts about the store\<close>

lemma works_iff: "works c \<longleftrightarrow> (\<exists>now. c = Works now)"
  by (cases c) (simp_all add: works_def)

lemma save_profile_known:
  "url p \<in> set (map profile_url rows) \<Longrightarrow>
     save_profile (Works now) (Some rows) p = ([], Inr False, Some rows)"
  by (simp add: save_profile_def insert_or_ignore_def)

lemma save_profile_new:
  "url p \<notin> set (map profile_url rows) \<Longrightarrow>
     save_profile (Works now) (Some rows) p =
       ([], Inr True,
        Some (rows @ [\<lparr>profile_url = url p, row_name = name p,
                       photo_url = photo p, created_at = now\<rparr>]))"
  by (simp add: save_profile_def insert_or_ignore_def)

lemma save_all_known:
  "\<forall>i. works (calls i) \<Longrightarrow> set (map url ps) \<subseteq> set (map profile_url rows) \<Longrightarrow>
     save_all calls (Some rows) ps = ([], Inr [], Some rows)"
proof (induction ps arbitrary: calls)
  case Nil
  then show ?case by simp
next
  case (Cons p ps)
  from Cons.prems(1) obtain now where c0: "calls 0 = Works now"
    by (auto simp: works_iff)
  have known: "url p \<in> set (map profile_url rows)"
    using Cons.prems(2) by simp
  have rest: "save_all (\<lambda>i. calls (Suc i)) (Some rows) ps = ([], Inr [], Some rows)"
    using Cons.prems by (intro Cons.IH) auto
  show ?case
    by (simp add: c0 save_profile_known[OF known] rest)
qed

lemma save_all_new:
  "\<forall>i. works (calls i) \<Longrightarrow> distinct (map url ps) \<Longrightarrow>
   set (map url ps) \<inter> set (map profile_url rows) = {} \<Longrightarrow>
     \<exists>rows'. save_all calls (Some rows) ps = ([], Inr ps, Some rows')
       \<and> set (map profile_url rows') = set (map profile_url rows) \<union> set (map url ps)"
proof (induction ps arbitrary: calls rows)
  case Nil
  then show ?case by simp
next
  case (Cons p ps)
  from Cons.prems(1) obtain now where c0: "calls 0 = Works now"
    by (auto simp: works_iff)
  define rows1 where "rows1 = rows @ [\<lparr>profile_url = url p,
    row_name = name p, photo_url = photo p, created_at = now\<rparr>]"
  have new: "url p \<notin> set (map profile_url rows)"
    using Cons.prems(3) by auto
  have first: "save_profile (calls 0) (Some rows) p = ([], Inr True, Some rows1)"
    by (simp add: c0 save_profile_new[OF new] rows1_def)
  have urls1: "set (map profile_url rows1) = insert (url p) (set (map profile_url rows))"
    by (simp add: rows1_def)
  have disj: "set (map url ps) \<inter> set (map profile_url rows1) = {}"
    using Cons.prems(2,3) by (auto simp: rows1_def)
  have "\<exists>rows'. save_all (\<lambda>i. calls (Suc i)) (Some rows1) ps = ([], Inr ps, Some rows')
       \<and> set (map profile_url rows') = set (map profile_url rows1) \<union> set (map url ps)"
    using Cons.prems(1,2) disj by (intro Cons.IH) auto
  then obtain rows' where
    rest: "save_all (\<lambda>i. calls (Suc i)) (Some rows1) ps = ([], Inr ps, Some rows')" and
    urls': "set (map profile_url rows') = set (map profile_url rows1) \<union> set (map url ps)"
    by blast
  have "save_all calls (Some rows) (p # ps) = ([], Inr (p # ps), Some rows')"
    by (simp add: first rest)
  moreover have "set (map profile_url rows') = set (map profile_url rows) \<union> set (map url (p # ps))"
    using urls' urls1 by auto
  ultimately show ?case by blast
qed






text \<open>
  \<^bold>\<open>C1.\<close> Two passes of \<open>get_new_profiles\<close> over the same fetched document, on a
  database that works and held none of the extracted urls before: when the extracted
  profiles have distinct urls, the first pass returns all of them as new and the second
  pass returns none and leaves the table as the first pass left it.
\<close>

theorem second_pass_finds_nothing_new:
  assumes "distinct (map url (snd (extract_profiles f)))"
    and "set (map url (snd (extract_profiles f))) \<inter> set (map profile_url rows) = {}"
    and "\<forall>i. works (calls1 i)"
    and "\<forall>i. works (calls2 i)"
  shows "fst (snd (get_new_profiles f calls1 (Some rows))) = Inr (snd (extract_profiles f))
       \<and> fst (snd (get_new_profiles f calls2 (snd (snd (get_new_profiles f calls1 (Some rows))))))
           = Inr []
       \<and> snd (snd (get_new_profiles f calls2 (snd (snd (get_new_profiles f calls1 (Some rows))))))
           = snd (snd (get_new_profiles f calls1 (Some rows)))"
proof -
  obtain logs ps where ex: "extract_profiles f = (logs, ps)"
    by (cases "extract_profiles f")
  from assms(1,2) have d: "distinct (map url ps)"
    and i: "set (map url ps) \<inter> set (map profile_url rows) = {}"
    by (simp_all add: ex)
  from save_all_new[OF assms(3) d i] obtain rows' where
    one: "save_all calls1 (Some rows) ps = ([], Inr ps, Some rows')" and
    urls: "set (map profile_url rows') = set (map profile_url rows) \<union> set (map url ps)"
    by blast
  have sub: "set (map url ps) \<subseteq> set (map profile_url rows')"
    using urls by auto
  have two: "save_all calls2 (Some rows') ps = ([], Inr [], Some rows')"
    by (rule save_all_known[OF assms(4) sub])
  have p1: "get_new_profiles f calls1 (Some rows) = (logs, Inr ps, Some rows')"
    by (simp add: get_new_profiles_def ex one)
  have p2: "get_new_profiles f calls2 (Some rows') = (logs, Inr [], Some rows')"
    by (simp add: get_new_profiles_def ex two)
  show ?thesis
    by (simp add: p1 p2 ex)
qed

theorem second_pass_finds_nothing_new_witness:
  "distinct (map url (snd (extract_profiles (Responds (response_of 200 [ann_card, bob_card])))))
   \<and> set (map url (snd (extract_profiles (Responds (response_of 200 [ann_card, bob_card])))))
       \<inter> set (map profile_url []) = {}
   \<and> (\<forall>i. works (always_works i))
   \<and> snd (extract_profiles (Responds (response_of 200 [ann_card, bob_card]))) = [ann, bob]
   \<and> fst (snd (get_new_profiles (Responds (response_of 200 [ann_card, bob_card]))
         always_works (Some []))) = Inr [ann, bob]
   \<and> fst (snd (get_new_profiles (Responds (response_of 200 [ann_card, bob_card])) always_works
         (snd (snd (get_new_profiles (Responds (response_of 200 [ann_card, bob_card]))
            always_works (Some [])))))) = Inr []"
proof -
  have e: "snd (extract_profiles (Responds (response_of 200 [ann_card, bob_card]))) = [ann, bob]"
    by (rule extract_two_cards)
  have a: "distinct (map url (snd (extract_profiles (Responds (response_of 200 [ann_card, bob_card])))))"
    by (simp add: extract_two_cards ann_def bob_def ascii_def)
  have b: "set (map url (snd (extract_profiles (Responds (response_of 200 [ann_card, bob_card])))))
       \<inter> set (map profile_url []) = {}"
    by simp
  have c: "\<forall>i. works (always_works i)"
    by (simp add: works_def always_works_def)
  from second_pass_finds_nothing_new[OF a b c c] a b c e show ?thesis
    by simp
qed











section \<open>Facts about the fetch and the status command\<close>

lemma get_new_profiles_parts:
  "extract_profiles f = (logs, ps) \<Longrightarrow> save_all calls db ps = (logs', r, db') \<Longrightarrow>
     get_new_profiles f calls db = (logs @ logs', r, db')"
  by (simp add: get_new_profiles_def)

lemma raise_for_status_response_of_300: "raise_for_status (response_of 300 cards) = None"
  by (simp add: raise_for_status_def response_of_def)

lemma profile_blocks_ann_page: "profile_blocks (soup (response_of 300 [ann_card])) = [ann_card]"
  by code_simp

text \<open>
  \<^bold>\<open>C3\<close>, as the specification has it, fails: a response with status code 300 is not in
  the 2xx range, yet its page is parsed and the cycle returns the profile found on it as
  new.
\<close>

theorem status_300_is_parsed:
  "\<not> (200 \<le> status_code (response_of 300 [ann_card])
       \<and> status_code (response_of 300 [ann_card]) < 300)
   \<and> get_new_profiles (Responds (response_of 300 [ann_card])) always_works (Some [])
       = ([(INFO, found_info @ ascii ''1'')], Inr [ann], Some [ann_row])"
proof -
  have b: "extract_blocks [ann_card] = ([], [ann])"
    by (simp add: extract_ann_card)
  have e: "extract_profiles (Responds (response_of 300 [ann_card]))
      = ([(INFO, found_info @ ascii ''1'')], [ann])"
    using extract_profiles_parsed[OF raise_for_status_response_of_300 profile_blocks_ann_page b]
    by (simp add: ascii_def)
  have s: "save_all always_works (Some []) [ann] = ([], Inr [ann], Some [ann_row])"
    by (simp add: always_works_def save_profile_def insert_or_ignore_def
        ann_row_def ann_def)
  have "get_new_profiles (Responds (response_of 300 [ann_card])) always_works (Some [])
       = ([(INFO, found_info @ ascii ''1'')], Inr [ann], Some [ann_row])"
    using get_new_profiles_parts[OF e s] by simp
  then show ?thesis
    by (simp add: response_of_def)
qed

text \<open>
  \<^bold>\<open>C3\<close>, amended. When the fetch raises, or the response has a status code from 400 to
  599, \<open>extract_profiles\<close> logs one error and returns the empty list, and the cycle
  returns no new profile and leaves the table as it is. A response with any other status
  code is parsed whatever the code is: the result is what the blocks of its page give.
\<close>

theorem fetch_error_gives_no_new_profiles:
  "((f = Raises e \<or> (\<exists>r. f = Responds r \<and> 400 \<le> status_code r \<and> status_code r < 600))
      \<longrightarrow> (\<exists>m. extract_profiles f = ([(ERROR, page_error @ m)], [])
                \<and> get_new_profiles f calls db = ([(ERROR, page_error @ m)], Inr [], db)))
   \<and> (\<not> (400 \<le> status_code r \<and> status_code r < 600)
      \<longrightarrow> extract_profiles (Responds r)
            = (fst (extract_blocks (profile_blocks (soup r)))
                 @ [(INFO, found_info
                       @ str_nat (length (snd (extract_blocks (profile_blocks (soup r))))))],
               snd (extract_blocks (profile_blocks (soup r)))))"
proof (intro conjI impI)
  assume a: "f = Raises e \<or> (\<exists>r. f = Responds r \<and> 400 \<le> status_code r \<and> status_code r < 600)"
  have "\<exists>m. extract_profiles f = ([(ERROR, page_error @ m)], [])"
    using a
    by (auto simp: extract_profiles_def raise_for_status_def split: fetch.splits)
  then obtain m where m: "extract_profiles f = ([(ERROR, page_error @ m)], [])" by blast
  then have "get_new_profiles f calls db = ([(ERROR, page_error @ m)], Inr [], db)"
    by (simp add: get_new_profiles_def)
  with m show "\<exists>m. extract_profiles f = ([(ERROR, page_error @ m)], [])
                \<and> get_new_profiles f calls db = ([(ERROR, page_error @ m)], Inr [], db)"
    by blast
next
  assume "\<not> (400 \<le> status_code r \<and> status_code r < 600)"
  then have ok: "raise_for_status r = None"
    by (cases "400 \<le> status_code r") (simp_all add: raise_for_status_def)
  obtain logs ps where b: "extract_blocks (profile_blocks (soup r)) = (logs, ps)"
    by (cases "extract_blocks (profile_blocks (soup r))")
  from extract_profiles_parsed[OF ok refl b]
  show "extract_profiles (Responds r)
            = (fst (extract_blocks (profile_blocks (soup r)))
                 @ [(INFO, found_info
                       @ str_nat (length (snd (extract_blocks (profile_blocks (soup r))))))],
               snd (extract_blocks (profile_blocks (soup r))))"
    by (simp add: b)
qed

theorem fetch_error_gives_no_new_profiles_witness:
  "400 \<le> status_code (response_of 503 [ann_card])
   \<and> status_code (response_of 503 [ann_card]) < 600
   \<and> (\<exists>m. extract_profiles (Responds (response_of 503 [ann_card]))
              = ([(ERROR, page_error @ m)], [])
          \<and> get_new_profiles (Responds (response_of 503 [ann_card])) always_works (Some [])
              = ([(ERROR, page_error @ m)], Inr [], Some []))
   \<and> (\<exists>m. extract_profiles (Raises (RequestException (ascii ''timed out'')))
              = ([(ERROR, page_error @ m)], [])
          \<and> get_new_profiles (Raises (RequestException (ascii ''timed out''))) always_works
                (Some [])
              = ([(ERROR, page_error @ m)], Inr [], Some []))
   \<and> \<not> (400 \<le> status_code (response_of 300 [ann_card])
         \<and> status_code (response_of 300 [ann_card]) < 600)
   \<and> extract_profiles (Responds (response_of 300 [ann_card]))
       = (fst (extract_blocks (profile_blocks (soup (response_of 300 [ann_card]))))
            @ [(INFO, found_info @ str_nat (length (snd (extract_blocks
                  (profile_blocks (soup (response_of 300 [ann_card])))))))],
          snd (extract_blocks (profile_blocks (soup (response_of 300 [ann_card])))))"
proof -
  have c: "400 \<le> status_code (response_of 503 [ann_card])
      \<and> status_code (response_of 503 [ann_card]) < 600"
    by (simp add: response_of_def)
  then have h: "Responds (response_of 503 [ann_card]) = Raises (RequestException [])
      \<or> (\<exists>r. Responds (response_of 503 [ann_card]) = Responds r
             \<and> 400 \<le> status_code r \<and> status_code r < 600)"
    by blast
  have h': "Raises (RequestException (ascii ''timed out'')) = Raises (RequestException (ascii ''timed out''))
      \<or> (\<exists>r. Raises (RequestException (ascii ''timed out'')) = Responds r
             \<and> 400 \<le> status_code r \<and> status_code r < 600)"
    by blast
  have n: "\<not> (400 \<le> status_code (response_of 300 [ann_card])
         \<and> status_code (response_of 300 [ann_card]) < 600)"
    by (simp add: response_of_def)
  have 1: "\<exists>m. extract_profiles (Responds (response_of 503 [ann_card]))
              = ([(ERROR, page_error @ m)], [])
          \<and> get_new_profiles (Responds (response_of 503 [ann_card])) always_works (Some [])
              = ([(ERROR, page_error @ m)], Inr [], Some [])"
    using fetch_error_gives_no_new_profiles[of "Responds (response_of 503 [ann_card])"
        "RequestException []" always_works "Some []"] h
    by blast
  have 2: "\<exists>m. extract_profiles (Raises (RequestException (ascii ''timed out'')))
              = ([(ERROR, page_error @ m)], [])
          \<and> get_new_profiles (Raises (RequestException (ascii ''timed out''))) always_works
                (Some [])
              = ([(ERROR, page_error @ m)], Inr [], Some [])"
    using fetch_error_gives_no_new_profiles[of "Raises (RequestException (ascii ''timed out''))"
        "RequestException (ascii ''timed out'')" always_works "Some []"] h'
    by blast
  have 3: "extract_profiles (Responds (response_of 300 [ann_card]))
       = (fst (extract_blocks (profile_blocks (soup (response_of 300 [ann_card]))))
            @ [(INFO, found_info @ str_nat (length (snd (extract_blocks
                  (profile_blocks (soup (response_of 300 [ann_card])))))))],
          snd (extract_blocks (profile_blocks (soup (response_of 300 [ann_card])))))"
    using fetch_error_gives_no_new_profiles[where r = "response_of 300 [ann_card]"] n
    by blast
  from c 1 2 n 3 show ?thesis
    by blast
qed

text \<open>
  \<^bold>\<open>C2.\<close> When the check of the store fails in \<open>ping_command\<close> (the connection raises,
  the query raises, or the table does not exist yet), the local \<open>count\<close> is never
  assigned, and building the status text raises \<open>UnboundLocalError\<close>, which leaves
  \<open>ping_command\<close>: no report is sent.
\<close>

theorem ping_command_unbound_count:
  "ping_command check_time (ConnectRaises e) db f reply_text = Inl unbound_count
   \<and> ping_command check_time (ExecuteRaises e) db f reply_text = Inl unbound_count
   \<and> ping_command check_time (Works now) None f reply_text = Inl unbound_count"
  by (simp add: ping_command_def ping_db_def)

lemma ping_command_report:
  "ping_command check_time (Works now) (Some rows) f (\<lambda>s. None) =
     Inr (status_head @ time_label @ check_time @ [10]
          @ count_label @ str_nat (length rows) @ [10]
          @ db_label @ db_works @ [10]
          @ page_label @ ping_page f @ [10]
          @ next_check)"
  by (simp add: ping_command_def ping_db_def)


section \<open>Facts about the notification\<close>

lemma fallback_text_has_name: "str_in (name p) (fallback_text p)"
  unfolding fallback_text_def by (rule str_in_mid)

lemma fallback_text_has_url: "str_in (url p) (fallback_text p)"
proof -
  have "fallback_text p = (fallback_head @ name p @ fallback_link) @ url p @ []"
    by (simp add: fallback_text_def)
  then show ?thesis by (simp only: str_in_mid)
qed

lemma fallback_text_has_note: "str_in photo_error_note (fallback_text p)"
proof -
  have "fallback_head = [127917, 32, 1053, 1086, 1074, 1099, 1081, 32, 1087, 1088, 1086, 1092,
      1080, 1083, 1100, 32] @ photo_error_note @ [58, 10, 128100, 32]"
    by (simp add: fallback_head_def photo_error_note_def)
  then have "fallback_text p = [127917, 32, 1053, 1086, 1074, 1099, 1081, 32, 1087, 1088, 1086,
      1092, 1080, 1083, 1100, 32] @ photo_error_note
      @ ([58, 10, 128100, 32] @ name p @ fallback_link @ url p)"
    by (simp add: fallback_text_def)
  then show ?thesis by (simp only: str_in_mid)
qed

lemma notify_profile_failed:
  "b sent (primary_send chat p) = Some e \<Longrightarrow>
     snd (notify_profile b chat sent p)
       = sent @ [primary_send chat p, SendMessage chat (fallback_text p)]"
  by (simp add: notify_profile_def split: option.splits)

lemma snd_send_notification_Cons:
  "snd (send_notification b chat sent (p # ps))
     = snd (send_notification b chat (snd (notify_profile b chat sent p)) ps)"
  by (simp split: prod.splits)

text \<open>
  \<^bold>\<open>C4.\<close> For a profile with a photo whose delivery with the photo fails, exactly one
  more call follows for that profile: a text message with the fallback text, which
  contains the name, the url and the note that the photo could not be loaded.
\<close>

theorem photo_failure_falls_back_to_text:
  assumes "photo p = Some ph" and "ph \<noteq> []"
    and "b sent (SendPhoto chat ph (message p)) = Some e"
  shows "snd (send_notification b chat sent [p])
           = sent @ [SendPhoto chat ph (message p), SendMessage chat (fallback_text p)]
       \<and> snd (send_notification b chat sent (p # ps))
           = snd (send_notification b chat
                    (sent @ [SendPhoto chat ph (message p), SendMessage chat (fallback_text p)]) ps)
       \<and> str_in (name p) (fallback_text p)
       \<and> str_in (url p) (fallback_text p)
       \<and> str_in photo_error_note (fallback_text p)"
proof -
  have prim: "primary_send chat p = SendPhoto chat ph (message p)"
    using assms(1,2) by (simp add: primary_send_def)
  have n: "snd (notify_profile b chat sent p)
       = sent @ [SendPhoto chat ph (message p), SendMessage chat (fallback_text p)]"
    using notify_profile_failed[of b sent chat p e] assms(3) by (simp add: prim)
  show ?thesis
    by (simp add: snd_send_notification_Cons n fallback_text_has_name fallback_text_has_url
        fallback_text_has_note del: send_notification.simps(2))
qed

theorem photo_failure_falls_back_to_text_witness:
  "photo ann = Some (ascii ''https://www.kino-teatr.ru/img/x.jpg'')
   \<and> ascii ''https://www.kino-teatr.ru/img/x.jpg'' \<noteq> []
   \<and> no_photo_bot []
        (SendPhoto example_chat (ascii ''https://www.kino-teatr.ru/img/x.jpg'') (message ann))
       = Some (TelegramError (ascii ''wrong file''))
   \<and> snd (send_notification no_photo_bot example_chat [] [ann])
       = [SendPhoto example_chat (ascii ''https://www.kino-teatr.ru/img/x.jpg'') (message ann),
          SendMessage example_chat (fallback_text ann)]
   \<and> str_in (name ann) (fallback_text ann)
   \<and> str_in (url ann) (fallback_text ann)
   \<and> str_in photo_error_note (fallback_text ann)"
proof -
  have a: "photo ann = Some (ascii ''https://www.kino-teatr.ru/img/x.jpg'')"
    by (simp add: ann_def)
  have b: "ascii ''https://www.kino-teatr.ru/img/x.jpg'' \<noteq> []"
    by (simp add: ascii_def)
  have c: "no_photo_bot []
        (SendPhoto example_chat (ascii ''https://www.kino-teatr.ru/img/x.jpg'') (message ann))
       = Some (TelegramError (ascii ''wrong file''))"
    by (simp add: no_photo_bot_def)
  from photo_failure_falls_back_to_text[where b = no_photo_bot and sent = "[]"
      and chat = example_chat and p = ann and ps = "[]", OF a b c] a b c
  show ?thesis
    by simp
qed

text \<open>
  \<^bold>\<open>C10.\<close> The fallback is not tied to the photo: for a profile without a photo whose
  text message fails, one more call follows, a text message with the same fallback text
  (with the note about the photo), which contains the name and the url.
\<close>

theorem text_failure_falls_back_to_text:
  assumes "photo p = None \<or> photo p = Some []"
    and "b sent (SendMessage chat (message p)) = Some e"
  shows "snd (send_notification b chat sent [p])
           = sent @ [SendMessage chat (message p), SendMessage chat (fallback_text p)]
       \<and> snd (send_notification b chat sent (p # ps))
           = snd (send_notification b chat
                    (sent @ [SendMessage chat (message p), SendMessage chat (fallback_text p)]) ps)
       \<and> str_in (name p) (fallback_text p)
       \<and> str_in (url p) (fallback_text p)
       \<and> str_in photo_error_note (fallback_text p)"
proof -
  have prim: "primary_send chat p = SendMessage chat (message p)"
    using assms(1) by (auto simp: primary_send_def)
  have n: "snd (notify_profile b chat sent p)
       = sent @ [SendMessage chat (message p), SendMessage chat (fallback_text p)]"
    using notify_profile_failed[of b sent chat p e] assms(2) by (simp add: prim)
  show ?thesis
    by (simp add: snd_send_notification_Cons n fallback_text_has_name fallback_text_has_url
        fallback_text_has_note del: send_notification.simps(2))
qed

theorem text_failure_falls_back_to_text_witness:
  "(photo bob = None \<or> photo bob = Some [])
   \<and> first_fails_bot [] (SendMessage example_chat (message bob))
       = Some (TelegramError (ascii ''timed out''))
   \<and> snd (send_notification first_fails_bot example_chat [] [bob])
       = [SendMessage example_chat (message bob), SendMessage example_chat (fallback_text bob)]
   \<and> str_in (name bob) (fallback_text bob)
   \<and> str_in (url bob) (fallback_text bob)
   \<and> str_in photo_error_note (fallback_text bob)"
proof -
  have a: "photo bob = None \<or> photo bob = Some []"
    by (simp add: bob_def)
  have c: "first_fails_bot [] (SendMessage example_chat (message bob))
       = Some (TelegramError (ascii ''timed out''))"
    by (simp add: first_fails_bot_def)
  from text_failure_falls_back_to_text[where b = first_fails_bot and sent = "[]"
      and chat = example_chat and p = bob and ps = "[]", OF a c] a c
  show ?thesis
    by simp
qed

end
